theory Spec2Isabelle
  imports Main "HOL-Library.AList"
begin

section \<open>Python exceptions that the calculator can meet\<close>

text \<open>
  The signals of Python's \<^verbatim>\<open>decimal\<close> module that the default context traps
  (\<^verbatim>\<open>InvalidOperation\<close>, \<^verbatim>\<open>DivisionByZero\<close>, \<^verbatim>\<open>Overflow\<close>) are raised as
  exceptions; the remaining constructors are the exceptions of file loading.
\<close>

datatype py_exception =
    InvalidOperation
  | DivisionByZero
  | Overflow
  | FileNotFoundError
  | EmptyDataError
  | ParserError

section \<open>The operand type: \<^verbatim>\<open>decimal.Decimal\<close> under the default context\<close>

text \<open>
  The operands of every command are \<^verbatim>\<open>Decimal\<close> objects of the Python standard
  library. A \<^verbatim>\<open>Decimal\<close> is a sign, a coefficient and an exponent
  (value \<open>\<plusminus> coefficient * 10 ^ exponent\<close>), or an infinity, or a quiet or
  signalling NaN with a payload. Arithmetic follows the General Decimal Arithmetic
  rules with the default context: 28 significant digits, round-half-even,
  \<^verbatim>\<open>Emax = 999999\<close>, \<^verbatim>\<open>Emin = -999999\<close>, no clamping.
\<close>

datatype decimal =
    Finite bool nat int
  | Infinity bool
  | NaN bool nat
  | SNaN bool nat

definition prec :: nat where
  "prec = 28"

definition Emax :: int where
  "Emax = 999999"

definition Emin :: int where
  "Emin = - 999999"

definition Etiny :: int where
  "Etiny = Emin - int prec + 1"

definition Etop :: int where
  "Etop = Emax - int prec + 1"

text \<open>\<^verbatim>\<open>len(str(n))\<close>: the number of decimal digits of a coefficient.\<close>

fun ndigits :: "nat \<Rightarrow> nat" where
  "ndigits n = (if n < 10 then 1 else Suc (ndigits (n div 10)))"

declare ndigits.simps [simp del]

text \<open>Drop the \<open>k\<close> low digits of \<open>c\<close>, rounding half to even.\<close>

definition round_half_even :: "nat \<Rightarrow> nat \<Rightarrow> nat" where
  "round_half_even c k =
     (let q = c div 10 ^ k; r = c mod 10 ^ k
      in if 2 * r > 10 ^ k \<or> (2 * r = 10 ^ k \<and> odd q) then q + 1 else q)"

text \<open>
  \<^verbatim>\<open>Decimal._fix\<close> on a finite number: round the exact result to the context.
  A zero keeps its sign and gets its exponent clipped; a result beyond
  \<^verbatim>\<open>Emax\<close> raises \<^verbatim>\<open>Overflow\<close>; a coefficient of more than 28 digits, or
  a subnormal one, is rounded. The untrapped signals (\<^verbatim>\<open>Inexact\<close>,
  \<^verbatim>\<open>Rounded\<close>, \<^verbatim>\<open>Subnormal\<close>, \<^verbatim>\<open>Underflow\<close>, \<^verbatim>\<open>Clamped\<close>) only
  set flags and are not modelled.
\<close>

definition dec_fix :: "bool \<Rightarrow> nat \<Rightarrow> int \<Rightarrow> py_exception + decimal" where
  "dec_fix s c e =
     (if c = 0 then Inr (Finite s 0 (min (max e Etiny) Emax))
      else
        let exp_min = int (ndigits c) + e - int prec in
        if exp_min > Etop then Inl Overflow
        else
          let exp_min = max exp_min Etiny in
          if e < exp_min then
            (let coeff = round_half_even c (nat (exp_min - e)) in
             if ndigits coeff > prec then
               (if exp_min + 1 > Etop then Inl Overflow
                else Inr (Finite s (coeff div 10) (exp_min + 1)))
             else Inr (Finite s coeff exp_min))
          else Inr (Finite s c e))"

text \<open>\<^verbatim>\<open>Decimal._fix_nan\<close>: a payload longer than the precision keeps its low digits.\<close>

definition fix_nan :: "bool \<Rightarrow> nat \<Rightarrow> decimal" where
  "fix_nan s p = NaN s (if ndigits p > prec then p mod 10 ^ prec else p)"

text \<open>
  \<^verbatim>\<open>Decimal._check_nans\<close>: a signalling NaN operand raises
  \<^verbatim>\<open>InvalidOperation\<close>, a quiet NaN operand is the result; \<open>None\<close> when
  neither operand is a NaN.
\<close>

fun check_nans :: "decimal \<Rightarrow> decimal \<Rightarrow> (py_exception + decimal) option" where
  "check_nans (SNaN s p) b = Some (Inl InvalidOperation)"
| "check_nans a (SNaN s p) = Some (Inl InvalidOperation)"
| "check_nans (NaN s p) b = Some (Inr (fix_nan s p))"
| "check_nans a (NaN s p) = Some (Inr (fix_nan s p))"
| "check_nans a b = None"

definition signed_int :: "bool \<Rightarrow> nat \<Rightarrow> int" where
  "signed_int s c = (if s then - int c else int c)"

text \<open>\<^verbatim>\<open>Decimal.__add__\<close>: the exact sum at the smaller exponent, then \<^verbatim>\<open>_fix\<close>.\<close>

fun add_finite :: "bool \<Rightarrow> nat \<Rightarrow> int \<Rightarrow> bool \<Rightarrow> nat \<Rightarrow> int \<Rightarrow> py_exception + decimal" where
  "add_finite s1 c1 e1 s2 c2 e2 =
     (let e = min e1 e2;
          v = signed_int s1 (c1 * 10 ^ nat (e1 - e)) + signed_int s2 (c2 * 10 ^ nat (e2 - e))
      in if v = 0 then dec_fix (c1 = 0 \<and> c2 = 0 \<and> s1 \<and> s2) 0 e
         else dec_fix (v < 0) (nat \<bar>v\<bar>) e)"

definition dec_add :: "decimal \<Rightarrow> decimal \<Rightarrow> py_exception + decimal" where
  "dec_add a b =
     (case check_nans a b of
        Some r \<Rightarrow> r
      | None \<Rightarrow>
          (case (a, b) of
             (Infinity s1, Infinity s2) \<Rightarrow>
               if s1 \<noteq> s2 then Inl InvalidOperation else Inr (Infinity s1)
           | (Infinity s1, _) \<Rightarrow> Inr (Infinity s1)
           | (_, Infinity s2) \<Rightarrow> Inr (Infinity s2)
           | (Finite s1 c1 e1, Finite s2 c2 e2) \<Rightarrow> add_finite s1 c1 e1 s2 c2 e2
           | _ \<Rightarrow> Inl InvalidOperation))"

text \<open>\<^verbatim>\<open>Decimal.copy_negate\<close>.\<close>

fun copy_negate :: "decimal \<Rightarrow> decimal" where
  "copy_negate (Finite s c e) = Finite (\<not> s) c e"
| "copy_negate (Infinity s) = Infinity (\<not> s)"
| "copy_negate (NaN s p) = NaN (\<not> s) p"
| "copy_negate (SNaN s p) = SNaN (\<not> s) p"

text \<open>\<^verbatim>\<open>Decimal.__sub__\<close>: NaN check first, then \<open>a + (-b)\<close>.\<close>

definition dec_sub :: "decimal \<Rightarrow> decimal \<Rightarrow> py_exception + decimal" where
  "dec_sub a b =
     (case check_nans a b of
        Some r \<Rightarrow> r
      | None \<Rightarrow> dec_add a (copy_negate b))"

text \<open>\<^verbatim>\<open>Decimal.__mul__\<close>.\<close>

definition dec_mul :: "decimal \<Rightarrow> decimal \<Rightarrow> py_exception + decimal" where
  "dec_mul a b =
     (case check_nans a b of
        Some r \<Rightarrow> r
      | None \<Rightarrow>
          (case (a, b) of
             (Infinity s1, Infinity s2) \<Rightarrow> Inr (Infinity (s1 \<noteq> s2))
           | (Infinity s1, Finite s2 c2 e2) \<Rightarrow>
               if c2 = 0 then Inl InvalidOperation else Inr (Infinity (s1 \<noteq> s2))
           | (Finite s1 c1 e1, Infinity s2) \<Rightarrow>
               if c1 = 0 then Inl InvalidOperation else Inr (Infinity (s1 \<noteq> s2))
           | (Finite s1 c1 e1, Finite s2 c2 e2) \<Rightarrow> dec_fix (s1 \<noteq> s2) (c1 * c2) (e1 + e2)
           | _ \<Rightarrow> Inl InvalidOperation))"

text \<open>
  The loop of \<^verbatim>\<open>Decimal.__truediv__\<close> that brings an exact quotient as close to
  the ideal exponent as its trailing zeros allow.
\<close>

function strip_zeros :: "nat \<Rightarrow> int \<Rightarrow> int \<Rightarrow> nat \<times> int" where
  "strip_zeros coeff e ideal =
     (if e < ideal \<and> coeff mod 10 = 0 then strip_zeros (coeff div 10) (e + 1) ideal
      else (coeff, e))"
  by pat_completeness auto
termination
  by (relation "measure (\<lambda>(coeff, e, ideal). nat (ideal - e))") auto

declare strip_zeros.simps [simp del]

text \<open>\<^verbatim>\<open>Decimal.__truediv__\<close> on two finite numbers.\<close>

definition div_finite :: "bool \<Rightarrow> nat \<Rightarrow> int \<Rightarrow> bool \<Rightarrow> nat \<Rightarrow> int \<Rightarrow> py_exception + decimal" where
  "div_finite s1 c1 e1 s2 c2 e2 =
     (if c2 = 0 then (if c1 = 0 then Inl InvalidOperation else Inl DivisionByZero)
      else if c1 = 0 then dec_fix (s1 \<noteq> s2) 0 (e1 - e2)
      else
        let shift = int (ndigits c2) - int (ndigits c1) + int prec + 1;
            e = e1 - e2 - shift;
            num = (if shift \<ge> 0 then c1 * 10 ^ nat shift else c1);
            den = (if shift \<ge> 0 then c2 else c2 * 10 ^ nat (- shift));
            coeff = num div den;
            remainder = num mod den
        in if remainder \<noteq> 0
           then dec_fix (s1 \<noteq> s2) (if coeff mod 5 = 0 then coeff + 1 else coeff) e
           else (case strip_zeros coeff e (e1 - e2) of
                   (coeff', e') \<Rightarrow> dec_fix (s1 \<noteq> s2) coeff' e'))"

definition dec_div :: "decimal \<Rightarrow> decimal \<Rightarrow> py_exception + decimal" where
  "dec_div a b =
     (case check_nans a b of
        Some r \<Rightarrow> r
      | None \<Rightarrow>
          (case (a, b) of
             (Infinity s1, Infinity s2) \<Rightarrow> Inl InvalidOperation
           | (Infinity s1, Finite s2 c2 e2) \<Rightarrow> Inr (Infinity (s1 \<noteq> s2))
           | (Finite s1 c1 e1, Infinity s2) \<Rightarrow> Inr (Finite (s1 \<noteq> s2) 0 Etiny)
           | (Finite s1 c1 e1, Finite s2 c2 e2) \<Rightarrow> div_finite s1 c1 e1 s2 c2 e2
           | _ \<Rightarrow> Inl InvalidOperation))"

text \<open>The integer literal \<^verbatim>\<open>2\<close> of the mean and median commands, as a \<^verbatim>\<open>Decimal\<close>.\<close>

definition two :: decimal where
  "two = Finite False 2 0"

section \<open>The commands (\<^verbatim>\<open>calculator/command.py\<close>, \<^verbatim>\<open>calculator/plugins\<close>)\<close>

datatype command =
    AddCommand
  | SubtractCommand
  | MultiplyCommand
  | SquareCommand
  | MeanCommand
  | MedianCommand

fun operation_name :: "command \<Rightarrow> string" where
  "operation_name AddCommand = ''add''"
| "operation_name SubtractCommand = ''subtract''"
| "operation_name MultiplyCommand = ''multiply''"
| "operation_name SquareCommand = ''square''"
| "operation_name MeanCommand = ''mean''"
| "operation_name MedianCommand = ''median''"

text \<open>\<^verbatim>\<open>execute(self, num1, num2)\<close> of each plugin; \<open>Inl\<close> is a raised exception.\<close>

fun execute :: "command \<Rightarrow> decimal \<Rightarrow> decimal \<Rightarrow> py_exception + decimal" where
  "execute AddCommand num1 num2 = dec_add num1 num2"
| "execute SubtractCommand num1 num2 = dec_sub num1 num2"
| "execute MultiplyCommand num1 num2 = dec_mul num1 num2"
| "execute SquareCommand num1 num2 = dec_mul num1 num1"
| "execute MeanCommand num1 num2 =
     (case dec_add num1 num2 of Inl x \<Rightarrow> Inl x | Inr s \<Rightarrow> dec_div s two)"
| "execute MedianCommand num1 num2 =
     (case dec_add num1 num2 of Inl x \<Rightarrow> Inl x | Inr s \<Rightarrow> dec_div s two)"

text \<open>
  \<^verbatim>\<open>execute_multiprocessing(self, num1, num2, result_queue)\<close>, the same two lines in
  every plugin: compute with \<^verbatim>\<open>execute\<close>, then \<^verbatim>\<open>result_queue.put(result)\<close>.
  The queue is the list of values put so far; an exception of \<^verbatim>\<open>execute\<close>
  leaves before the put.
\<close>

definition execute_multiprocessing ::
  "command \<Rightarrow> decimal \<Rightarrow> decimal \<Rightarrow> decimal list \<Rightarrow> py_exception + decimal list" where
  "execute_multiprocessing cmd num1 num2 result_queue =
     (case execute cmd num1 num2 of
        Inl x \<Rightarrow> Inl x
      | Inr result \<Rightarrow> Inr (result_queue @ [result]))"

section \<open>Text and \<^verbatim>\<open>Decimal\<close>: the constructor and \<^verbatim>\<open>str\<close>\<close>

text \<open>
  Strings are lists of 8-bit characters; operand texts are taken to be ASCII.
\<close>

definition is_digit :: "char \<Rightarrow> bool" where
  "is_digit c = (c \<in> set ''0123456789'')"

definition digit_val :: "char \<Rightarrow> nat" where
  "digit_val c = of_char c - 48"

definition nat_of_digits :: "string \<Rightarrow> nat" where
  "nat_of_digits ds = foldl (\<lambda>n c. 10 * n + digit_val c) 0 ds"

definition is_space :: "char \<Rightarrow> bool" where
  "is_space c = (c \<in> set [CHR 0x09, CHR 0x0A, CHR 0x0B, CHR 0x0C, CHR 0x0D,
                            CHR 0x1C, CHR 0x1D, CHR 0x1E, CHR 0x1F, CHR 0x20])"

text \<open>\<^verbatim>\<open>str.strip()\<close>.\<close>

definition strip :: "string \<Rightarrow> string" where
  "strip s = rev (dropWhile is_space (rev (dropWhile is_space s)))"

definition lower_char :: "char \<Rightarrow> char" where
  "lower_char c =
     (case map_of (zip ''ABCDEFGHIJKLMNOPQRSTUVWXYZ'' ''abcdefghijklmnopqrstuvwxyz'') c of
        Some l \<Rightarrow> l
      | None \<Rightarrow> c)"

definition upper_char :: "char \<Rightarrow> char" where
  "upper_char c =
     (case map_of (zip ''abcdefghijklmnopqrstuvwxyz'' ''ABCDEFGHIJKLMNOPQRSTUVWXYZ'') c of
        Some u \<Rightarrow> u
      | None \<Rightarrow> c)"

text \<open>The exponent part of a numeric string: \<^verbatim>\<open>[-+]?\d+\<close>.\<close>

definition parse_exponent :: "string \<Rightarrow> int option" where
  "parse_exponent t =
     (let (neg, ds) = (case t of
                         c # r \<Rightarrow> if c = CHR ''-'' then (True, r)
                                  else if c = CHR ''+'' then (False, r)
                                  else (False, t)
                       | [] \<Rightarrow> (False, t))
      in if ds \<noteq> [] \<and> list_all is_digit ds
         then Some (if neg then - int (nat_of_digits ds) else int (nat_of_digits ds))
         else None)"

text \<open>
  The number alternative of the numeric-string grammar: digits with an optional
  fraction (at least one digit in all) and an optional exponent. The input is
  already lower-cased and has its sign removed.
\<close>

definition parse_number :: "bool \<Rightarrow> string \<Rightarrow> decimal option" where
  "parse_number sign l =
     (let intpart = takeWhile is_digit l;
          r1 = dropWhile is_digit l;
          (fracpart, r2) = (case r1 of
                              c # t \<Rightarrow> if c = CHR ''.''
                                       then (takeWhile is_digit t, dropWhile is_digit t)
                                       else ([], r1)
                            | [] \<Rightarrow> ([], r1))
      in if intpart = [] \<and> fracpart = [] then None
         else (case r2 of
                 [] \<Rightarrow> Some (Finite sign (nat_of_digits (intpart @ fracpart))
                                (- int (length fracpart)))
               | c # t \<Rightarrow>
                   if c = CHR ''e''
                   then (case parse_exponent t of
                           Some x \<Rightarrow> Some (Finite sign (nat_of_digits (intpart @ fracpart))
                                             (x - int (length fracpart)))
                         | None \<Rightarrow> None)
                   else None))"

text \<open>
  \<^verbatim>\<open>Decimal(value)\<close> for a \<^verbatim>\<open>str\<close>: surrounding whitespace is stripped,
  underscores are removed, and the rest must be a numeric string (matched without
  regard to case): a number, an infinity, or a NaN with optional payload digits.
  \<open>None\<close> is the raised \<^verbatim>\<open>InvalidOperation\<close>. The conversion is exact: the
  context is not applied.
\<close>

definition Decimal :: "string \<Rightarrow> decimal option" where
  "Decimal v =
     (let s = filter (\<lambda>c. c \<noteq> CHR ''_'') (strip v);
          (sign, r) = (case s of
                         c # t \<Rightarrow> if c = CHR ''-'' then (True, t)
                                  else if c = CHR ''+'' then (False, t)
                                  else (False, s)
                       | [] \<Rightarrow> (False, s));
          l = map lower_char r
      in if l = ''inf'' \<or> l = ''infinity'' then Some (Infinity sign)
         else if take 3 l = ''nan'' \<and> list_all is_digit (drop 3 l)
           then Some (NaN sign (nat_of_digits (drop 3 l)))
         else if take 4 l = ''snan'' \<and> list_all is_digit (drop 4 l)
           then Some (SNaN sign (nat_of_digits (drop 4 l)))
         else parse_number sign l)"

text \<open>\<^verbatim>\<open>str(n)\<close> for a natural number and for an integer.\<close>

fun str_nat :: "nat \<Rightarrow> string" where
  "str_nat n = (if n < 10 then [char_of (48 + n)]
                else str_nat (n div 10) @ [char_of (48 + n mod 10)])"

declare str_nat.simps [simp del]

definition str_int :: "int \<Rightarrow> string" where
  "str_int i = (if i < 0 then CHR ''-'' # str_nat (nat (- i)) else str_nat (nat i))"

text \<open>
  \<^verbatim>\<open>Decimal.__str__\<close>: the scientific string of the number. No exponent is
  written when the exponent is at most zero and the number has more than \<open>-6\<close>
  digits left of the point; otherwise one digit stands left of the point and the
  exponent follows \<^verbatim>\<open>E\<close> with its sign.
\<close>

definition str_finite :: "nat \<Rightarrow> int \<Rightarrow> string" where
  "str_finite c e =
     (let ds = str_nat c;
          leftdigits = e + int (length ds);
          dotplace = (if e \<le> 0 \<and> leftdigits > - 6 then leftdigits else 1);
          intpart = (if dotplace \<le> 0 then ''0''
                     else if dotplace \<ge> int (length ds)
                       then ds @ replicate (nat (dotplace - int (length ds))) CHR ''0''
                     else take (nat dotplace) ds);
          fracpart = (if dotplace \<le> 0
                        then CHR ''.'' # replicate (nat (- dotplace)) CHR ''0'' @ ds
                      else if dotplace \<ge> int (length ds) then []
                      else CHR ''.'' # drop (nat dotplace) ds);
          ex = (if leftdigits = dotplace then []
                else CHR ''E'' # (if leftdigits - dotplace \<ge> 0 then ''+'' else [])
                       @ str_int (leftdigits - dotplace))
      in intpart @ fracpart @ ex)"

fun str_decimal :: "decimal \<Rightarrow> string" where
  "str_decimal (Finite s c e) = (if s then ''-'' else []) @ str_finite c e"
| "str_decimal (Infinity s) = (if s then ''-'' else []) @ ''Infinity''"
| "str_decimal (NaN s p) =
     (if s then ''-'' else []) @ ''NaN'' @ (if p = 0 then [] else str_nat p)"
| "str_decimal (SNaN s p) =
     (if s then ''-'' else []) @ ''sNaN'' @ (if p = 0 then [] else str_nat p)"

section \<open>The plugin loader (\<^verbatim>\<open>load_plugins\<close> in \<^verbatim>\<open>main.py\<close>)\<close>

text \<open>
  The modules under \<^verbatim>\<open>calculator/plugins\<close>, each with the command class it
  defines. (Every module also imports \<^verbatim>\<open>Decimal\<close> and \<^verbatim>\<open>Command\<close>; the
  loader asks a module only for a name that ends in \<^verbatim>\<open>Command\<close> and has the
  module's own prefix, and no module is called \<^verbatim>\<open>_command\<close>, so these two
  imported names are never the one looked up.)
\<close>

definition plugin_modules :: "(string \<times> (string \<times> command) list) list" where
  "plugin_modules =
     [(''add_command'', [(''AddCommand'', AddCommand)]),
      (''mean_command'', [(''MeanCommand'', MeanCommand)]),
      (''median_command'', [(''MedianCommand'', MedianCommand)]),
      (''multiply_command'', [(''MultiplyCommand'', MultiplyCommand)]),
      (''square_command'', [(''SquareCommand'', SquareCommand)]),
      (''subtract_command'', [(''SubtractCommand'', SubtractCommand)])]"

text \<open>
  \<^verbatim>\<open>importlib.import_module('calculator.plugins.' + name)\<close>; \<open>None\<close> is
  \<^verbatim>\<open>ImportError\<close>.
\<close>

definition import_module :: "string \<Rightarrow> (string \<times> command) list option" where
  "import_module name = map_of plugin_modules name"

text \<open>\<^verbatim>\<open>getattr(module, name)\<close>; \<open>None\<close> is \<^verbatim>\<open>AttributeError\<close>.\<close>

definition getattr :: "(string \<times> command) list \<Rightarrow> string \<Rightarrow> command option" where
  "getattr module name = map_of module name"

text \<open>\<^verbatim>\<open>str.endswith\<close> and \<^verbatim>\<open>str.capitalize\<close>.\<close>

definition endswith :: "string \<Rightarrow> string \<Rightarrow> bool" where
  "endswith s suffix =
     (length suffix \<le> length s \<and> drop (length s - length suffix) s = suffix)"

definition capitalize :: "string \<Rightarrow> string" where
  "capitalize s = (case s of [] \<Rightarrow> [] | c # t \<Rightarrow> upper_char c # map lower_char t)"

text \<open>
  One turn of the loop over \<^verbatim>\<open>os.listdir(plugins_dir)\<close>. A file that does not
  end in \<^verbatim>\<open>_command.py\<close> is skipped; an \<^verbatim>\<open>ImportError\<close> or
  \<^verbatim>\<open>AttributeError\<close> is logged and the file skipped; otherwise an instance of
  the class is stored under the file name's prefix. \<^verbatim>\<open>commands\<close> is an
  \<^verbatim>\<open>OrderedDict\<close>: an association list in insertion order.
\<close>

definition load_plugin :: "string \<Rightarrow> (string \<times> command) list \<Rightarrow> (string \<times> command) list" where
  "load_plugin filename commands =
     (if endswith filename ''_command.py'' then
        (let module_name = take (length filename - 3) filename;
             key = take (length module_name - 8) module_name
         in case import_module module_name of
              None \<Rightarrow> commands
            | Some module \<Rightarrow>
                (case getattr module (capitalize key @ ''Command'') of
                   None \<Rightarrow> commands
                 | Some command_class \<Rightarrow> AList.update key command_class commands))
      else commands)"

text \<open>
  \<^verbatim>\<open>load_plugins()\<close>. The argument is the directory listing, \<open>None\<close> when the
  plugins directory does not exist.
\<close>

definition load_plugins :: "string list option \<Rightarrow> (string \<times> command) list" where
  "load_plugins listing =
     (case listing of
        None \<Rightarrow> []
      | Some filenames \<Rightarrow> foldl (\<lambda>commands filename. load_plugin filename commands) [] filenames)"

text \<open>The files of \<^verbatim>\<open>calculator/plugins\<close> in the repository.\<close>

definition plugins_dir :: "string list" where
  "plugins_dir =
     [''add_command.py'', ''mean_command.py'', ''median_command.py'',
      ''multiply_command.py'', ''square_command.py'', ''subtract_command.py'']"

section \<open>The history table (\<^verbatim>\<open>calculator/pandas_facade.py\<close>)\<close>

text \<open>
  A cell of the \<^verbatim>\<open>DataFrame\<close>. The calculator stores Python objects: the
  operation name (\<^verbatim>\<open>str\<close>), \<^verbatim>\<open>Decimal\<close> operands, and a result that is a
  \<^verbatim>\<open>Decimal\<close> or \<^verbatim>\<open>None\<close>. A table read from a file holds what the CSV
  reader infers: strings, 64-bit integers, 64-bit floats and the missing value
  NaN. A float cell is represented by the numeric text it was converted from; no
  floating-point arithmetic is modelled.
\<close>

datatype cell =
    CStr string
  | CDec decimal
  | CInt int
  | CFloat string
  | CNone
  | CNaN

text \<open>
  The \<^verbatim>\<open>DataFrame\<close>: its column labels and its rows in order. The row labels are
  always the positions \<open>0, 1, \<dots>\<close> (every operation of the facade re-derives
  them), so they are not stored.
\<close>

record dataframe =
  columns :: "string list"
  rows :: "cell list list"

text \<open>\<^verbatim>\<open>PandasFacade.__init__\<close>.\<close>

definition PandasFacade :: dataframe where
  "PandasFacade = \<lparr>columns = [''operation'', ''num1'', ''num2'', ''result''], rows = []\<rparr>"

text \<open>
  \<^verbatim>\<open>add_record\<close>: \<^verbatim>\<open>pd.concat([self.dataframe, pd.DataFrame([record])],
  ignore_index=True)\<close>. The columns of the result are those of the table followed
  by the keys of the record that the table lacks; a cell without a value is NaN;
  the record becomes the last row.
\<close>

definition add_record :: "(string \<times> cell) list \<Rightarrow> dataframe \<Rightarrow> dataframe" where
  "add_record record df =
     (let new_columns = filter (\<lambda>c. c \<notin> set (columns df)) (map fst record);
          all_columns = columns df @ new_columns
      in \<lparr>columns = all_columns,
          rows = map (\<lambda>r. r @ replicate (length new_columns) CNaN) (rows df)
                 @ [map (\<lambda>c. case map_of record c of Some v \<Rightarrow> v | None \<Rightarrow> CNaN)
                        all_columns]\<rparr>)"

text \<open>\<^verbatim>\<open>clear\<close>: an empty table with the current columns.\<close>

definition clear :: "dataframe \<Rightarrow> dataframe" where
  "clear df = \<lparr>columns = columns df, rows = []\<rparr>"

text \<open>What the program prints, line by line.\<close>

datatype printed_line =
    Result_line string string string decimal
  | Result_line_multiprocessing string string string decimal
  | Unknown_operation_type string
  | Multiprocessing_failed
  | Invalid_input string string
  | Error_occurred py_exception
  | Deleted_at int
  | Index_out_of_range int
  | File_not_found string
  | History_loaded string


text \<open>
  The files: a partial map from paths to contents. \<^verbatim>\<open>save_to_file\<close> writes what
  \<^verbatim>\<open>DataFrame.to_csv(filepath, index=False)\<close> produces, \<^verbatim>\<open>load_from_file\<close>
  assigns what \<^verbatim>\<open>pd.read_csv(filepath)\<close> returns. The two pandas functions are
  parameters (\<open>to_csv\<close>, \<open>read_csv\<close>) of the model; \<open>simple_to_csv\<close> and
  \<open>simple_read_csv\<close> below are their behaviour on quote-free text.
\<close>

definition save_to_file ::
  "(dataframe \<Rightarrow> string) \<Rightarrow> string \<Rightarrow> dataframe \<Rightarrow> (string \<rightharpoonup> string) \<Rightarrow> (string \<rightharpoonup> string)" where
  "save_to_file to_csv filepath df fs = fs(filepath \<mapsto> to_csv df)"

definition load_from_file ::
  "(string \<Rightarrow> py_exception + dataframe) \<Rightarrow> string \<Rightarrow> (string \<rightharpoonup> string)
     \<Rightarrow> py_exception + dataframe" where
  "load_from_file read_csv filepath fs =
     (case fs filepath of
        None \<Rightarrow> Inl FileNotFoundError
      | Some content \<Rightarrow> read_csv content)"

section \<open>Calculations (\<^verbatim>\<open>calculator/calculation.py\<close>, \<^verbatim>\<open>calculator/calculations.py\<close>)\<close>

text \<open>
  A \<^verbatim>\<open>Calculation\<close> object with its attributes \<^verbatim>\<open>a\<close>, \<^verbatim>\<open>b\<close>,
  \<^verbatim>\<open>operation\<close> and \<^verbatim>\<open>result\<close> (prefixed here, so that \<open>a\<close> and \<open>b\<close>
  stay free for variables). \<open>None\<close> is Python's \<^verbatim>\<open>None\<close>.
\<close>

record calculation =
  calc_a :: decimal
  calc_b :: decimal
  calc_operation :: command
  calc_result :: "decimal option"

text \<open>\<^verbatim>\<open>Calculation.__init__\<close>.\<close>

definition Calculation :: "decimal \<Rightarrow> decimal \<Rightarrow> command \<Rightarrow> calculation" where
  "Calculation a b operation =
     \<lparr>calc_a = a, calc_b = b, calc_operation = operation, calc_result = None\<rparr>"

text \<open>\<^verbatim>\<open>Calculation.operate\<close>: the returned value and the updated object.\<close>

definition operate :: "calculation \<Rightarrow> py_exception + decimal \<times> calculation" where
  "operate calc =
     (case execute (calc_operation calc) (calc_a calc) (calc_b calc) of
        Inl x \<Rightarrow> Inl x
      | Inr r \<Rightarrow> Inr (r, calc\<lparr>calc_result := Some r\<rparr>))"

text \<open>
  The class \<^verbatim>\<open>Calculations\<close> holds one facade; its table is passed in and
  returned.
\<close>

definition add_calculation :: "calculation \<Rightarrow> dataframe \<Rightarrow> dataframe" where
  "add_calculation calc df =
     add_record
       [(''operation'', CStr (operation_name (calc_operation calc))),
        (''num1'', CDec (calc_a calc)),
        (''num2'', CDec (calc_b calc)),
        (''result'', case calc_result calc of None \<Rightarrow> CNone | Some r \<Rightarrow> CDec r)]
       df"

definition clear_history :: "dataframe \<Rightarrow> dataframe" where
  "clear_history df = clear df"

definition save_history ::
  "(dataframe \<Rightarrow> string) \<Rightarrow> string \<Rightarrow> dataframe \<Rightarrow> (string \<rightharpoonup> string) \<Rightarrow> (string \<rightharpoonup> string)" where
  "save_history to_csv filepath df fs = save_to_file to_csv filepath df fs"

definition load_history ::
  "(string \<Rightarrow> py_exception + dataframe) \<Rightarrow> string \<Rightarrow> (string \<rightharpoonup> string)
     \<Rightarrow> py_exception + dataframe" where
  "load_history read_csv filepath fs = load_from_file read_csv filepath fs"


section \<open>The dispatcher (\<^verbatim>\<open>calculate_and_display_result\<close> in \<^verbatim>\<open>main.py\<close>)\<close>

text \<open>
  What happens to the worker process is not decided by the program: it either runs
  \<^verbatim>\<open>execute_multiprocessing\<close> to its end, or it is gone before it has put a value
  on the queue (killed, or never started).
\<close>

datatype worker_fate = Worker_completes | Worker_dies

text \<open>
  The contents of \<^verbatim>\<open>result_holder\<close> after \<^verbatim>\<open>process_instance.join()\<close>. An
  exception in the worker ends the worker alone and leaves the queue empty.
\<close>

definition run_worker :: "worker_fate \<Rightarrow> command \<Rightarrow> decimal \<Rightarrow> decimal \<Rightarrow> decimal list" where
  "run_worker fate operation_handler num1 num2 =
     (case fate of
        Worker_dies \<Rightarrow> []
      | Worker_completes \<Rightarrow>
          (case execute_multiprocessing operation_handler num1 num2 [] of
             Inl x \<Rightarrow> []
           | Inr result_holder \<Rightarrow> result_holder))"

text \<open>
  The three statements under \<^verbatim>\<open># Record the calculation in history\<close>: build the
  \<^verbatim>\<open>Calculation\<close>, \<^verbatim>\<open>operate()\<close> it in the calling process, append it.
\<close>

definition record_calculation ::
  "decimal \<Rightarrow> decimal \<Rightarrow> command \<Rightarrow> dataframe \<Rightarrow> py_exception + dataframe" where
  "record_calculation num1 num2 operation_handler df =
     (case operate (Calculation num1 num2 operation_handler) of
        Inl x \<Rightarrow> Inl x
      | Inr (result_from_record, calc_record) \<Rightarrow> Inr (add_calculation calc_record df))"

text \<open>
  The body of the \<^verbatim>\<open>try\<close>: the lines printed so far, and either the exception
  that left the body or the history table at its end.
\<close>

definition try_body ::
  "string \<Rightarrow> string \<Rightarrow> string \<Rightarrow> (string \<times> command) list \<Rightarrow> bool \<Rightarrow> worker_fate \<Rightarrow> dataframe
     \<Rightarrow> printed_line list \<times> (py_exception + dataframe)" where
  "try_body value1 value2 operation_key operations_dict enable_multiprocessing fate df =
     (case Decimal value1 of
        None \<Rightarrow> ([], Inl InvalidOperation)
      | Some num1 \<Rightarrow>
     (case Decimal value2 of
        None \<Rightarrow> ([], Inl InvalidOperation)
      | Some num2 \<Rightarrow>
     (case map_of operations_dict operation_key of
        None \<Rightarrow> ([Unknown_operation_type operation_key], Inr df)
      | Some operation_handler \<Rightarrow>
          if enable_multiprocessing then
            (case run_worker fate operation_handler num1 num2 of
               [] \<Rightarrow> ([Multiprocessing_failed],
                      record_calculation num1 num2 operation_handler df)
             | final_result # _ \<Rightarrow>
                 ([Result_line_multiprocessing value1 operation_key value2 final_result],
                  record_calculation num1 num2 operation_handler df))
          else
            (case execute operation_handler num1 num2 of
               Inl x \<Rightarrow> ([], Inl x)
             | Inr final_result \<Rightarrow>
                 ([Result_line value1 operation_key value2 final_result],
                  record_calculation num1 num2 operation_handler df)))))"

text \<open>
  \<^verbatim>\<open>calculate_and_display_result\<close>: the \<^verbatim>\<open>try\<close> with its two handlers. An
  exception leaves the table as it was, since the append is the last statement of
  the body. The result is what was printed and the history table afterwards.
\<close>

definition calculate_and_display_result ::
  "string \<Rightarrow> string \<Rightarrow> string \<Rightarrow> (string \<times> command) list \<Rightarrow> bool \<Rightarrow> worker_fate \<Rightarrow> dataframe
     \<Rightarrow> printed_line list \<times> dataframe" where
  "calculate_and_display_result value1 value2 operation_key operations_dict
       enable_multiprocessing fate df =
     (case try_body value1 value2 operation_key operations_dict enable_multiprocessing fate df of
        (printed, Inr df') \<Rightarrow> (printed, df')
      | (printed, Inl InvalidOperation) \<Rightarrow> (printed @ [Invalid_input value1 value2], df)
      | (printed, Inl error) \<Rightarrow> (printed @ [Error_occurred error], df))"


text \<open>
  \<^verbatim>\<open>df.iloc[i][column]\<close>, as the tests of the repository read the history:
  the cell of row \<open>i\<close> under a column label; \<open>None\<close> when there is no such row
  or column.
\<close>

definition iloc :: "dataframe \<Rightarrow> nat \<Rightarrow> string \<Rightarrow> cell option" where
  "iloc df i column =
     (if i < length (rows df) then map_of (zip (columns df) (rows df ! i)) column else None)"

section \<open>The CSV text of a table\<close>

text \<open>
  What \<^verbatim>\<open>DataFrame.to_csv(path, index=False)\<close> and \<^verbatim>\<open>pd.read_csv(path)\<close> do
  on text without quotes: fields are separated by commas, lines end in a line
  feed, the first line is the header. Quoted fields, boolean columns, repeated or
  empty header names and integers beyond 64 bits are outside this fragment.
\<close>

definition newline :: char where
  "newline = CHR 0x0A"

fun join_with :: "char \<Rightarrow> string list \<Rightarrow> string" where
  "join_with sep [] = []"
| "join_with sep [x] = x"
| "join_with sep (x # y # ys) = x @ sep # join_with sep (y # ys)"

text \<open>
  The text of one cell: \<^verbatim>\<open>str\<close> of the object, and the empty field for a
  missing value. (A float cell is written as the text it was read from; pandas
  writes \<^verbatim>\<open>repr\<close> of the float, which may be another spelling of the same
  number. No property below saves a float cell.)
\<close>

fun str_cell :: "cell \<Rightarrow> string" where
  "str_cell (CStr s) = s"
| "str_cell (CDec d) = str_decimal d"
| "str_cell (CInt i) = str_int i"
| "str_cell (CFloat t) = t"
| "str_cell CNone = []"
| "str_cell CNaN = []"

definition simple_to_csv :: "dataframe \<Rightarrow> string" where
  "simple_to_csv df =
     concat (map (\<lambda>line. join_with (CHR '','') line @ [newline])
                 (columns df # map (map str_cell) (rows df)))"

fun split_on :: "char \<Rightarrow> string \<Rightarrow> string list" where
  "split_on sep [] = [[]]"
| "split_on sep (c # cs) =
     (let r = split_on sep cs
      in if c = sep then [] # r else (c # hd r) # tl r)"

text \<open>The default missing-value spellings of \<^verbatim>\<open>read_csv\<close>.\<close>

definition na_values :: "string list" where
  "na_values =
     [[], ''#N/A'', ''#N/A N/A'', ''#NA'', ''-1.#IND'', ''-1.#QNAN'', ''-NaN'', ''-nan'',
      ''1.#IND'', ''1.#QNAN'', ''<NA>'', ''N/A'', ''NA'', ''NULL'', ''NaN'', ''None'',
      ''n/a'', ''nan'', ''null'']"

definition unsigned :: "string \<Rightarrow> string" where
  "unsigned t =
     (case t of
        c # r \<Rightarrow> if c = CHR ''-'' \<or> c = CHR ''+'' then r else t
      | [] \<Rightarrow> t)"

definition int_of_text :: "string \<Rightarrow> int" where
  "int_of_text t =
     (if take 1 t = ''-'' then - int (nat_of_digits (unsigned t))
      else int (nat_of_digits (unsigned t)))"

definition is_int_text :: "string \<Rightarrow> bool" where
  "is_int_text t =
     (unsigned t \<noteq> [] \<and> list_all is_digit (unsigned t) \<and>
      - (2 ^ 63) \<le> int_of_text t \<and> int_of_text t < 2 ^ 63)"

definition is_float_text :: "string \<Rightarrow> bool" where
  "is_float_text t =
     (let l = map lower_char (unsigned t)
      in l = ''inf'' \<or> l = ''infinity'' \<or> parse_number False l \<noteq> None)"

text \<open>
  Type inference for one column of fields: a column with a field that is neither
  missing nor numeric stays text; a column of integers becomes \<^verbatim>\<open>int64\<close>; any
  other numeric column becomes \<^verbatim>\<open>float64\<close>, with NaN for a missing field.
\<close>

definition infer_column :: "string list \<Rightarrow> cell list" where
  "infer_column texts =
     (if \<exists>t \<in> set texts. t \<notin> set na_values \<and> \<not> is_float_text t
      then map (\<lambda>t. if t \<in> set na_values then CNaN else CStr t) texts
      else if \<forall>t \<in> set texts. is_int_text t
      then map (\<lambda>t. CInt (int_of_text t)) texts
      else map (\<lambda>t. if t \<in> set na_values then CNaN else CFloat t) texts)"

definition simple_read_csv :: "string \<Rightarrow> py_exception + dataframe" where
  "simple_read_csv content =
     (case filter (\<lambda>l. l \<noteq> []) (split_on newline content) of
        [] \<Rightarrow> Inl EmptyDataError
      | header # data \<Rightarrow>
          (let names = split_on (CHR '','') header;
               records = map (split_on (CHR '','')) data
           in if \<exists>r \<in> set records. length r > length names then Inl ParserError
              else
                (let padded = map (\<lambda>r. r @ replicate (length names - length r) []) records;
                     typed = map (\<lambda>j. infer_column (map (\<lambda>r. r ! j) padded))
                                 [0 ..< length names]
                 in Inr \<lparr>columns = names,
                         rows = map (\<lambda>i. map (\<lambda>col. col ! i) typed)
                                    [0 ..< length records]\<rparr>)))"

text \<open>
  The record that \<^verbatim>\<open>add_calculation\<close> builds from an operated
  \<^verbatim>\<open>Calculation\<close>.
\<close>

definition history_record :: "command \<Rightarrow> decimal \<Rightarrow> decimal \<Rightarrow> decimal \<Rightarrow> (string \<times> cell) list" where
  "history_record cmd a b r =
     [(''operation'', CStr (operation_name cmd)), (''num1'', CDec a), (''num2'', CDec b),
      (''result'', CDec r)]"

text \<open>The registry that \<^verbatim>\<open>main\<close> builds from the repository's plugin directory.\<close>

definition registry :: "(string \<times> command) list" where
  "registry = load_plugins (Some plugins_dir)"

section \<open>Properties of the commands\<close>



section \<open>Properties of the history table\<close>

lemma add_record_rows:
  "length (rows (add_record rcd df)) = Suc (length (rows df))"
  by (simp add: add_record_def Let_def)

lemma add_record_iloc:
  assumes "map_of rcd c = Some v"
  shows "iloc (add_record rcd df) (length (rows df)) c = Some v"
proof -
  define new_columns where "new_columns = filter (\<lambda>c. c \<notin> set (columns df)) (map fst rcd)"
  define f where "f = (\<lambda>c. case map_of rcd c of Some v \<Rightarrow> v | None \<Rightarrow> CNaN)"
  have "(c, v) \<in> set rcd"
    using assms by (rule map_of_SomeD)
  then have "c \<in> fst ` set rcd"
    by force
  then have c_in: "c \<in> set (columns df @ new_columns)"
    by (auto simp: new_columns_def)
  have cols: "columns (add_record rcd df) = columns df @ new_columns"
    by (simp add: add_record_def Let_def new_columns_def)
  have row: "rows (add_record rcd df) ! length (rows df) = map f (columns df @ new_columns)"
    by (simp add: add_record_def Let_def new_columns_def f_def nth_append)
  have "map_of (zip (columns df @ new_columns) (map f (columns df @ new_columns))) c = Some (f c)"
    using c_in by (simp only: map_of_zip_map if_True)
  then show ?thesis
    using assms by (simp add: iloc_def add_record_rows cols row f_def)
qed



text \<open>
  C10. \<^verbatim>\<open>Calculations.add_calculation\<close> cannot fail and copies the result
  attribute as it is: for a \<^verbatim>\<open>Calculation\<close> that was never operated, the table
  gets one more row, and that last row holds the operation name, the two operands
  and \<^verbatim>\<open>None\<close> as its result.
\<close>

theorem add_calculation_unoperated:
  "length (rows (add_calculation (Calculation a b cmd) df)) = Suc (length (rows df)) \<and>
   iloc (add_calculation (Calculation a b cmd) df) (length (rows df)) ''result''
     = Some CNone \<and>
   iloc (add_calculation (Calculation a b cmd) df) (length (rows df)) ''operation''
     = Some (CStr (operation_name cmd)) \<and>
   iloc (add_calculation (Calculation a b cmd) df) (length (rows df)) ''num1''
     = Some (CDec a) \<and>
   iloc (add_calculation (Calculation a b cmd) df) (length (rows df)) ''num2''
     = Some (CDec b)"
  by (simp add: add_calculation_def Calculation_def add_record_rows add_record_iloc)

section \<open>Properties of the dispatcher and of the plugin loader\<close>

lemma record_calculation_ok:
  "execute cmd a b = Inr r \<Longrightarrow>
   record_calculation a b cmd df = Inr (add_record (history_record cmd a b r) df)"
  by (simp add: record_calculation_def operate_def Calculation_def add_calculation_def
      history_record_def)

lemma record_calculation_raises:
  "execute cmd a b = Inl x \<Longrightarrow> record_calculation a b cmd df = Inl x"
  by (simp add: record_calculation_def operate_def Calculation_def)

lemma run_worker_completes:
  "execute cmd a b = Inr r \<Longrightarrow> run_worker Worker_completes cmd a b = [r]"
  by (simp add: run_worker_def execute_multiprocessing_def)

lemma run_worker_empty:
  "execute cmd a b = Inl x \<Longrightarrow> run_worker fate cmd a b = []"
  by (cases fate) (simp_all add: run_worker_def execute_multiprocessing_def)

lemma dispatch_sync:
  assumes "Decimal v1 = Some a" "Decimal v2 = Some b" "map_of d key = Some cmd"
    and "execute cmd a b = Inr r"
  shows "calculate_and_display_result v1 v2 key d False fate df =
           ([Result_line v1 key v2 r], add_record (history_record cmd a b r) df)"
  using assms
  by (simp add: calculate_and_display_result_def try_body_def record_calculation_ok)

lemma dispatch_isolated:
  assumes "Decimal v1 = Some a" "Decimal v2 = Some b" "map_of d key = Some cmd"
    and "execute cmd a b = Inr r"
  shows "calculate_and_display_result v1 v2 key d True Worker_completes df =
           ([Result_line_multiprocessing v1 key v2 r], add_record (history_record cmd a b r) df)"
  using assms
  by (simp add: calculate_and_display_result_def try_body_def record_calculation_ok
      run_worker_completes)

lemma dispatch_worker_dies:
  assumes "Decimal v1 = Some a" "Decimal v2 = Some b" "map_of d key = Some cmd"
    and "execute cmd a b = Inr r"
  shows "calculate_and_display_result v1 v2 key d True Worker_dies df =
           ([Multiprocessing_failed], add_record (history_record cmd a b r) df)"
  using assms
  by (simp add: calculate_and_display_result_def try_body_def record_calculation_ok
      run_worker_def)

lemma dispatch_invalid_operand:
  assumes "Decimal v1 = None \<or> Decimal v2 = None"
  shows "calculate_and_display_result v1 v2 key d mp fate df = ([Invalid_input v1 v2], df)"
  using assms
  by (auto simp: calculate_and_display_result_def try_body_def split: option.splits)

lemma dispatch_unknown_operation:
  assumes "Decimal v1 = Some a" "Decimal v2 = Some b" "map_of d key = None"
  shows "calculate_and_display_result v1 v2 key d mp fate df = ([Unknown_operation_type key], df)"
  using assms
  by (simp add: calculate_and_display_result_def try_body_def)

lemma dispatch_raises:
  assumes "Decimal v1 = Some a" "Decimal v2 = Some b" "map_of d key = Some cmd"
    and "execute cmd a b = Inl x"
  shows "snd (calculate_and_display_result v1 v2 key d mp fate df) = df"
  using assms
  by (cases x; cases mp)
     (simp_all add: calculate_and_display_result_def try_body_def record_calculation_raises
        run_worker_empty)

lemma load_plugin_names:
  assumes "\<forall>(k, c) \<in> set commands. operation_name c = k"
  shows "\<forall>(k, c) \<in> set (load_plugin filename commands). operation_name c = k"
proof (cases "endswith filename ''_command.py''")
  case False
  then show ?thesis using assms by (simp add: load_plugin_def)
next
  case True
  define mname where "mname = take (length filename - 3) filename"
  define key where "key = take (length mname - 8) mname"
  show ?thesis
  proof (cases "import_module mname")
    case None
    then show ?thesis using assms True by (simp add: load_plugin_def mname_def)
  next
    case (Some m)
    show ?thesis
    proof (cases "getattr m (capitalize key @ ''Command'')")
      case None
      then show ?thesis using assms True Some
        by (simp add: load_plugin_def mname_def key_def Let_def)
    next
      case (Some cls)
      have nm: "operation_name cls = key"
        using \<open>import_module mname = Some m\<close> Some
        by (auto simp: import_module_def plugin_modules_def getattr_def key_def
            split: if_splits)
      have res: "load_plugin filename commands = AList.update key cls commands"
        using True \<open>import_module mname = Some m\<close> Some
        by (simp add: load_plugin_def mname_def key_def Let_def)
      have "set (AList.update key cls commands) \<subseteq> insert (key, cls) (set commands)"
        by (induction commands) auto
      then show ?thesis
        using assms nm unfolding res by auto
    qed
  qed
qed

lemma load_plugins_names:
  "\<forall>(k, c) \<in> set (load_plugins listing). operation_name c = k"
proof (cases listing)
  case None
  then show ?thesis by (simp add: load_plugins_def)
next
  case (Some filenames)
  have "\<forall>(k, c) \<in> set (foldl (\<lambda>commands filename. load_plugin filename commands) acc filenames).
          operation_name c = k"
    if "\<forall>(k, c) \<in> set acc. operation_name c = k" for acc
    using that
  proof (induction filenames arbitrary: acc)
    case Nil
    then show ?case by simp
  next
    case (Cons f fs)
    show ?case
      using Cons.IH [OF load_plugin_names [OF Cons.prems]] by simp
  qed
  from this [of "[]"] show ?thesis using Some by (simp add: load_plugins_def)
qed

lemma registry_eval:
  "registry = [(''add'', AddCommand), (''mean'', MeanCommand), (''median'', MedianCommand),
     (''multiply'', MultiplyCommand), (''square'', SquareCommand),
     (''subtract'', SubtractCommand)]"
  by code_simp

lemma add_record_standard:
  "columns df = columns PandasFacade \<Longrightarrow>
   rows (add_record (history_record cmd a b r) df) =
     rows df @ [[CStr (operation_name cmd), CDec a, CDec b, CDec r]]"
  by (simp add: add_record_def history_record_def PandasFacade_def)

text \<open>
  C1, the failing input. A dispatch of \<^verbatim>\<open>5 6 multiply mp\<close> whose worker is
  gone before it puts a value on the queue prints the failure message and then
  still appends the record \<open>(multiply, 5, 6, 30)\<close>, computed in the calling
  process, to the empty history. (The other two kinds of failed dispatch leave the
  history as it was: \<open>dispatch_invalid_operand\<close>, \<open>dispatch_unknown_operation\<close>;
  so does an operation that raises: \<open>dispatch_raises\<close>.)
\<close>

theorem worker_failure_still_appends:
  "calculate_and_display_result ''5'' ''6'' ''multiply'' registry True Worker_dies PandasFacade =
   ([Multiprocessing_failed],
    \<lparr>columns = [''operation'', ''num1'', ''num2'', ''result''],
     rows = [[CStr ''multiply'', CDec (Finite False 5 0), CDec (Finite False 6 0),
              CDec (Finite False 30 0)]]\<rparr>)"
  by code_simp

text \<open>
  C2 as stated fails: \<^verbatim>\<open>Infinity\<close> and \<^verbatim>\<open>-Infinity\<close> are valid decimal
  operands, their sum raises \<^verbatim>\<open>InvalidOperation\<close>, and the dispatch prints the
  invalid-input message and appends nothing.
\<close>

theorem add_dispatch_counterexample:
  "Decimal ''Infinity'' = Some (Infinity False) \<and>
   Decimal ''-Infinity'' = Some (Infinity True) \<and>
   calculate_and_display_result ''Infinity'' ''-Infinity'' ''add'' registry False
       Worker_completes PandasFacade =
     ([Invalid_input ''Infinity'' ''-Infinity''], PandasFacade)"
  by code_simp

text \<open>
  C2, amended. For operand texts that parse to decimals \<open>a\<close> and \<open>b\<close> and a
  registry that holds the add command under \<^verbatim>\<open>add\<close>: when the decimal sum
  \<open>a + b\<close> raises no signal and is \<open>r\<close>, the synchronous dispatch prints the
  result \<open>r\<close> and the history grows by exactly one row, the last, whose fields
  are \<open>(add, a, b, r)\<close> (on a table with the four history columns the earlier
  rows are untouched); when the sum raises a signal, the history is unchanged.
\<close>

theorem add_dispatch_records_sum:
  assumes "Decimal v1 = Some a" and "Decimal v2 = Some b"
    and "map_of d ''add'' = Some AddCommand"
  shows "(dec_add a b = Inr r \<longrightarrow>
            fst (calculate_and_display_result v1 v2 ''add'' d False fate df)
              = [Result_line v1 ''add'' v2 r] \<and>
            length (rows (snd (calculate_and_display_result v1 v2 ''add'' d False fate df)))
              = Suc (length (rows df)) \<and>
            iloc (snd (calculate_and_display_result v1 v2 ''add'' d False fate df))
                 (length (rows df)) ''operation'' = Some (CStr ''add'') \<and>
            iloc (snd (calculate_and_display_result v1 v2 ''add'' d False fate df))
                 (length (rows df)) ''num1'' = Some (CDec a) \<and>
            iloc (snd (calculate_and_display_result v1 v2 ''add'' d False fate df))
                 (length (rows df)) ''num2'' = Some (CDec b) \<and>
            iloc (snd (calculate_and_display_result v1 v2 ''add'' d False fate df))
                 (length (rows df)) ''result'' = Some (CDec r) \<and>
            (columns df = columns PandasFacade \<longrightarrow>
               rows (snd (calculate_and_display_result v1 v2 ''add'' d False fate df))
                 = rows df @ [[CStr ''add'', CDec a, CDec b, CDec r]])) \<and>
         (dec_add a b = Inl x \<longrightarrow>
            snd (calculate_and_display_result v1 v2 ''add'' d False fate df) = df)"
proof (intro conjI impI)
  assume ok: "dec_add a b = Inr r"
  then have ex: "execute AddCommand a b = Inr r"
    by simp
  note eq = dispatch_sync [OF assms ex, of fate df]
  show "fst (calculate_and_display_result v1 v2 ''add'' d False fate df)
          = [Result_line v1 ''add'' v2 r]"
    by (simp add: eq)
  show "length (rows (snd (calculate_and_display_result v1 v2 ''add'' d False fate df)))
          = Suc (length (rows df))"
    by (simp add: eq add_record_rows)
  show "iloc (snd (calculate_and_display_result v1 v2 ''add'' d False fate df))
          (length (rows df)) ''operation'' = Some (CStr ''add'')"
    by (simp add: eq add_record_iloc history_record_def)
  show "iloc (snd (calculate_and_display_result v1 v2 ''add'' d False fate df))
          (length (rows df)) ''num1'' = Some (CDec a)"
    by (simp add: eq add_record_iloc history_record_def)
  show "iloc (snd (calculate_and_display_result v1 v2 ''add'' d False fate df))
          (length (rows df)) ''num2'' = Some (CDec b)"
    by (simp add: eq add_record_iloc history_record_def)
  show "iloc (snd (calculate_and_display_result v1 v2 ''add'' d False fate df))
          (length (rows df)) ''result'' = Some (CDec r)"
    by (simp add: eq add_record_iloc history_record_def)
  show "rows (snd (calculate_and_display_result v1 v2 ''add'' d False fate df))
          = rows df @ [[CStr ''add'', CDec a, CDec b, CDec r]]"
    if "columns df = columns PandasFacade"
    using that by (simp add: eq add_record_standard)
next
  assume "dec_add a b = Inl x"
  then have "execute AddCommand a b = Inl x"
    by simp
  from dispatch_raises [OF assms this]
  show "snd (calculate_and_display_result v1 v2 ''add'' d False fate df) = df" .
qed

theorem add_dispatch_records_sum_witness:
  "fst (calculate_and_display_result ''3'' ''4'' ''add'' registry False Worker_completes PandasFacade)
     = [Result_line ''3'' ''add'' ''4'' (Finite False 7 0)] \<and>
   rows (snd (calculate_and_display_result ''3'' ''4'' ''add'' registry False Worker_completes
                PandasFacade))
     = [[CStr ''add'', CDec (Finite False 3 0), CDec (Finite False 4 0), CDec (Finite False 7 0)]] \<and>
   snd (calculate_and_display_result ''Infinity'' ''-Infinity'' ''add'' registry False
          Worker_completes PandasFacade) = PandasFacade"
proof -
  have p3: "Decimal ''3'' = Some (Finite False 3 0)" by code_simp
  have p4: "Decimal ''4'' = Some (Finite False 4 0)" by code_simp
  have pi: "Decimal ''Infinity'' = Some (Infinity False)" by code_simp
  have pm: "Decimal ''-Infinity'' = Some (Infinity True)" by code_simp
  have reg: "map_of registry ''add'' = Some AddCommand" by code_simp
  have s7: "dec_add (Finite False 3 0) (Finite False 4 0) = Inr (Finite False 7 0)" by code_simp
  have inv: "dec_add (Infinity False) (Infinity True) = Inl InvalidOperation" by code_simp
  show ?thesis
    using add_dispatch_records_sum [OF p3 p4 reg, of "Finite False 7 0" Worker_completes
            PandasFacade InvalidOperation]
          add_dispatch_records_sum [OF pi pm reg, of "Finite False 7 0" Worker_completes
            PandasFacade InvalidOperation]
    by (simp add: s7 inv PandasFacade_def)
qed

text \<open>
  C8. For every command and every pair of decimal operands: when \<^verbatim>\<open>execute\<close>
  returns \<open>r\<close>, \<^verbatim>\<open>execute_multiprocessing\<close> puts exactly \<open>r\<close> on the empty
  result queue, a worker that runs to its end leaves exactly \<open>r\<close> there, and the
  dispatcher prints the same value and leaves the same history in isolated mode as
  in synchronous mode; when \<^verbatim>\<open>execute\<close> raises, \<^verbatim>\<open>execute_multiprocessing\<close>
  raises the same exception and nothing is put on the queue.
\<close>

theorem isolated_value_equals_synchronous:
  "(execute cmd a b = Inr r \<longrightarrow>
      execute_multiprocessing cmd a b [] = Inr [r] \<and>
      run_worker Worker_completes cmd a b = [r] \<and>
      (Decimal v1 = Some a \<and> Decimal v2 = Some b \<and> map_of d key = Some cmd \<longrightarrow>
         fst (calculate_and_display_result v1 v2 key d True Worker_completes df)
           = [Result_line_multiprocessing v1 key v2 r] \<and>
         fst (calculate_and_display_result v1 v2 key d False fate df)
           = [Result_line v1 key v2 r] \<and>
         snd (calculate_and_display_result v1 v2 key d True Worker_completes df)
           = snd (calculate_and_display_result v1 v2 key d False fate df))) \<and>
   (execute cmd a b = Inl x \<longrightarrow>
      execute_multiprocessing cmd a b q = Inl x \<and> run_worker fate cmd a b = [])"
proof (intro conjI impI)
  assume ok: "execute cmd a b = Inr r"
  show "execute_multiprocessing cmd a b [] = Inr [r]"
    using ok by (simp add: execute_multiprocessing_def)
  show "run_worker Worker_completes cmd a b = [r]"
    using ok by (rule run_worker_completes)
  assume ctx: "Decimal v1 = Some a \<and> Decimal v2 = Some b \<and> map_of d key = Some cmd"
  then have p1: "Decimal v1 = Some a" and p2: "Decimal v2 = Some b"
    and reg: "map_of d key = Some cmd"
    by simp_all
  show "fst (calculate_and_display_result v1 v2 key d True Worker_completes df)
          = [Result_line_multiprocessing v1 key v2 r]"
    by (simp add: dispatch_isolated [OF p1 p2 reg ok])
  show "fst (calculate_and_display_result v1 v2 key d False fate df) = [Result_line v1 key v2 r]"
    by (simp add: dispatch_sync [OF p1 p2 reg ok])
  show "snd (calculate_and_display_result v1 v2 key d True Worker_completes df)
          = snd (calculate_and_display_result v1 v2 key d False fate df)"
    by (simp add: dispatch_isolated [OF p1 p2 reg ok] dispatch_sync [OF p1 p2 reg ok])
next
  assume bad: "execute cmd a b = Inl x"
  show "execute_multiprocessing cmd a b q = Inl x"
    using bad by (simp add: execute_multiprocessing_def)
  show "run_worker fate cmd a b = []"
    using bad by (rule run_worker_empty)
qed

theorem isolated_value_equals_synchronous_witness:
  "execute_multiprocessing MultiplyCommand (Finite False 5 0) (Finite False 6 0) []
     = Inr [Finite False 30 0] \<and>
   fst (calculate_and_display_result ''5'' ''6'' ''multiply'' registry True Worker_completes
          PandasFacade)
     = [Result_line_multiprocessing ''5'' ''multiply'' ''6'' (Finite False 30 0)] \<and>
   fst (calculate_and_display_result ''5'' ''6'' ''multiply'' registry False Worker_completes
          PandasFacade)
     = [Result_line ''5'' ''multiply'' ''6'' (Finite False 30 0)] \<and>
   execute_multiprocessing AddCommand (Infinity False) (Infinity True) []
     = Inl InvalidOperation"
proof -
  have p5: "Decimal ''5'' = Some (Finite False 5 0)" by code_simp
  have p6: "Decimal ''6'' = Some (Finite False 6 0)" by code_simp
  have reg: "map_of registry ''multiply'' = Some MultiplyCommand" by code_simp
  have m: "execute MultiplyCommand (Finite False 5 0) (Finite False 6 0)
             = Inr (Finite False 30 0)" by code_simp
  have inv: "execute AddCommand (Infinity False) (Infinity True) = Inl InvalidOperation"
    by code_simp
  show ?thesis
    using isolated_value_equals_synchronous
            [of MultiplyCommand "Finite False 5 0" "Finite False 6 0" "Finite False 30 0"
                "''5''" "''6''" registry "''multiply''" PandasFacade Worker_completes
                InvalidOperation "[]"]
          isolated_value_equals_synchronous
            [of AddCommand "Infinity False" "Infinity True" "Finite False 30 0"
                "''5''" "''6''" registry "''multiply''" PandasFacade Worker_completes
                InvalidOperation "[]"]
    by (simp add: p5 p6 reg m inv del: execute.simps)
qed

text \<open>
  C9. For every directory listing, each key of the registry that
  \<^verbatim>\<open>load_plugins\<close> builds from the repository's plugin modules names an instance
  whose \<^verbatim>\<open>operation_name\<close> is that key; hence the record appended by a dispatch
  that looked the operation up under \<open>key\<close> and executed it carries \<open>key\<close> as
  its operation name.
\<close>

theorem registry_key_is_operation_name:
  "(\<forall>(k, c) \<in> set (load_plugins listing). operation_name c = k) \<and>
   (Decimal v1 = Some a \<and> Decimal v2 = Some b \<and>
    map_of (load_plugins listing) key = Some cmd \<and> execute cmd a b = Inr r \<longrightarrow>
      iloc (snd (calculate_and_display_result v1 v2 key (load_plugins listing) mp fate df))
           (length (rows df)) ''operation'' = Some (CStr key))"
proof (intro conjI impI)
  show names: "\<forall>(k, c) \<in> set (load_plugins listing). operation_name c = k"
    by (rule load_plugins_names)
  assume ctx: "Decimal v1 = Some a \<and> Decimal v2 = Some b \<and>
    map_of (load_plugins listing) key = Some cmd \<and> execute cmd a b = Inr r"
  then have p1: "Decimal v1 = Some a" and p2: "Decimal v2 = Some b"
    and reg: "map_of (load_plugins listing) key = Some cmd" and ok: "execute cmd a b = Inr r"
    by simp_all
  have "(key, cmd) \<in> set (load_plugins listing)"
    using reg by (rule map_of_SomeD)
  with names have nm: "operation_name cmd = key"
    by auto
  have "snd (calculate_and_display_result v1 v2 key (load_plugins listing) mp fate df)
          = add_record (history_record cmd a b r) df"
  proof (cases mp)
    case False
    then show ?thesis by (simp add: dispatch_sync [OF p1 p2 reg ok])
  next
    case True
    then show ?thesis
      by (cases fate)
         (simp_all add: dispatch_isolated [OF p1 p2 reg ok] dispatch_worker_dies [OF p1 p2 reg ok])
  qed
  then show "iloc (snd (calculate_and_display_result v1 v2 key (load_plugins listing) mp fate df))
               (length (rows df)) ''operation'' = Some (CStr key)"
    by (simp add: add_record_iloc history_record_def nm)
qed

theorem registry_key_is_operation_name_witness:
  "load_plugins (Some plugins_dir) =
     [(''add'', AddCommand), (''mean'', MeanCommand), (''median'', MedianCommand),
      (''multiply'', MultiplyCommand), (''square'', SquareCommand),
      (''subtract'', SubtractCommand)] \<and>
   map (\<lambda>(k, c). operation_name c) (load_plugins (Some plugins_dir))
     = map fst (load_plugins (Some plugins_dir)) \<and>
   iloc (snd (calculate_and_display_result ''3'' ''4'' ''add'' (load_plugins (Some plugins_dir))
                False Worker_completes PandasFacade)) 0 ''operation'' = Some (CStr ''add'')"
proof -
  have l: "load_plugins (Some plugins_dir) =
     [(''add'', AddCommand), (''mean'', MeanCommand), (''median'', MedianCommand),
      (''multiply'', MultiplyCommand), (''square'', SquareCommand),
      (''subtract'', SubtractCommand)]" by code_simp
  have p3: "Decimal ''3'' = Some (Finite False 3 0)" by code_simp
  have p4: "Decimal ''4'' = Some (Finite False 4 0)" by code_simp
  have s7: "execute AddCommand (Finite False 3 0) (Finite False 4 0) = Inr (Finite False 7 0)"
    by code_simp
  have reg: "map_of (load_plugins (Some plugins_dir)) ''add'' = Some AddCommand"
    by (simp add: l)
  show ?thesis
    using registry_key_is_operation_name
            [of "Some plugins_dir" "''3''" "Finite False 3 0" "''4''" "Finite False 4 0"
                "''add''" AddCommand "Finite False 7 0" False Worker_completes PandasFacade]
    by (simp add: l p3 p4 s7 PandasFacade_def del: execute.simps)
qed

section \<open>Properties of saving and loading\<close>




text \<open>
  C3, the failing input. The history after the dispatch \<^verbatim>\<open>0.1 0.2 add\<close> holds
  the decimals \<open>0.1\<close>, \<open>0.2\<close>, \<open>0.3\<close>. Saving writes their text; loading the
  same path parses the three fields as 64-bit floats, so the loaded record holds
  floats where the saved one held decimals.
\<close>

theorem save_clear_load_changes_values:
  "snd (calculate_and_display_result ''0.1'' ''0.2'' ''add'' registry False Worker_completes
          PandasFacade)
     = \<lparr>columns = [''operation'', ''num1'', ''num2'', ''result''],
        rows = [[CStr ''add'', CDec (Finite False 1 (- 1)), CDec (Finite False 2 (- 1)),
                 CDec (Finite False 3 (- 1))]]\<rparr> \<and>
   save_history simple_to_csv ''history.csv''
       \<lparr>columns = [''operation'', ''num1'', ''num2'', ''result''],
        rows = [[CStr ''add'', CDec (Finite False 1 (- 1)), CDec (Finite False 2 (- 1)),
                 CDec (Finite False 3 (- 1))]]\<rparr> Map.empty ''history.csv''
     = Some ''operation,num1,num2,result\<newline>add,0.1,0.2,0.3\<newline>'' \<and>
   load_history simple_read_csv ''history.csv''
       (save_history simple_to_csv ''history.csv''
          \<lparr>columns = [''operation'', ''num1'', ''num2'', ''result''],
           rows = [[CStr ''add'', CDec (Finite False 1 (- 1)), CDec (Finite False 2 (- 1)),
                    CDec (Finite False 3 (- 1))]]\<rparr> Map.empty)
     = Inr \<lparr>columns = [''operation'', ''num1'', ''num2'', ''result''],
            rows = [[CStr ''add'', CFloat ''0.1'', CFloat ''0.2'', CFloat ''0.3'']]\<rparr>"
  by code_simp

end
